theory Spec2Isabelle
  imports Main
begin

section \<open>Data model\<close>

text \<open>
  The websocket connection is an opaque handle. \<open>Bot.Socket\<close> is a pointer
  (\<open>*websocket.Conn\<close>): \<open>None\<close> is the nil pointer.
\<close>

type_synonym Conn = nat

text \<open>
  The command pattern of the \<open>allot\<close> library, as main.go uses it: \<open>Text()\<close> returns the
  raw pattern, \<open>Match(text)\<close> returns a match and an error; \<open>Some match\<close> stands for
  \<open>err == nil\<close>. The match result is an opaque value of type \<open>'mt\<close>.
\<close>

record 'mt allot_Command =
  Text :: string
  Match :: "string \<Rightarrow> 'mt option"

text \<open>
  \<open>allot.New(text)\<close>: the command keeps the text it was built from; how a pattern
  matches a text is the library's business and a parameter here.
\<close>

definition allot_New :: "(string \<Rightarrow> string \<Rightarrow> 'mt option) \<Rightarrow> string \<Rightarrow> 'mt allot_Command" where
  "allot_New matcher text = \<lparr>Text = text, Match = matcher text\<rparr>"

text \<open>
  \<open>CommandInterface\<close> is an interface: a value carries its own methods. main.go calls
  \<open>Get()\<close>, \<open>Description()\<close> and \<open>Handle(conv)\<close>; the call of \<open>Handle\<close> is an event of the
  trace (see \<open>event\<close>). A value of a Go function type is nil or a function: a handler
  is an option, with \<open>None\<close> for nil. \<open>Handler\<close> is the function that \<open>Handle\<close> runs (in
  the spec a command is a pattern, a description and a handler).
\<close>

record ('mt, 'h) CommandInterface =
  Get :: "'mt allot_Command"
  Description :: string
  Handler :: "'h option"

text \<open>
  Modelled from the spec: \<open>NewCommand(text, description, handler)\<close> of command.go, which is
  not among the sources at hand. The spec: a command is a pattern, compiled once at
  registration, a description and a handler, immutable after construction.
\<close>

definition NewCommand ::
  "(string \<Rightarrow> string \<Rightarrow> 'mt option) \<Rightarrow> string \<Rightarrow> string \<Rightarrow> 'h option \<Rightarrow> ('mt, 'h) CommandInterface" where
  "NewCommand matcher text description handler =
     \<lparr>Get = allot_New matcher text, Description = description, Handler = handler\<rparr>"

text \<open>The response of the negotiation call, as \<open>json.Unmarshal\<close> fills it.\<close>

record handshakeResponseSelf =
  ID :: string

record handshakeResponse =
  Ok :: bool
  Error :: string
  URL :: string
  Self :: handshakeResponseSelf

text \<open>
  Modelled from the spec: the fields of the \<open>Message\<close> struct (message.go is not among the
  sources at hand). main.go reads the field \<open>Message\<close> (line 147) and builds the zero value
  \<open>Message{}\<close> (line 190); the spec lists the raw text as received, the derived text, the
  sender identifier, the channel identifier and the channel-type flag.
\<close>

record Message =
  Message :: string
  DerivedText :: string
  UserID :: string
  Channel :: string
  Direct :: bool

definition Message_zero :: Message where
  "Message_zero = \<lparr>Message = [], DerivedText = [], UserID = [], Channel = [], Direct = False\<rparr>"

text \<open>
  The methods of \<open>Message\<close> that main.go calls. Their bodies are in message.go, so the
  dispatcher takes them as a parameter. A method with a pointer receiver that mutates the
  message returns the updated message.
\<close>

record MessageMethods =
  IsBotMessage :: "string \<Rightarrow> string \<Rightarrow> Message \<Rightarrow> bool"
  StripMention :: "string \<Rightarrow> Message \<Rightarrow> Message"
  StripLinkMarkup :: "Message \<Rightarrow> Message"
  StripPrefix :: "string \<Rightarrow> Message \<Rightarrow> Message"
  IsHelpRequest :: "Message \<Rightarrow> bool"
  Text :: "Message \<Rightarrow> string"
  IsDirectMessage :: "Message \<Rightarrow> bool"
  User :: "Message \<Rightarrow> string"
  SetText :: "string \<Rightarrow> Message \<Rightarrow> Message"

text \<open>
  The conversations handed to handlers: \<open>NewConversation(match, msg, socket)\<close> and
  \<open>NewListenerConversation(msg, socket)\<close> are kept as the constructor calls they are.
\<close>

datatype 'mt ConversationInterface =
    NewConversation 'mt Message "Conn option"
  | NewListenerConversation Message "Conn option"

text \<open>
  Effects are recorded in a trace, in program order. A handler runs in a goroutine of its
  own, so what it does is not part of the trace: the trace records the go statement, the
  function value it was given and the conversation. \<open>Go None conv\<close> is a go statement on
  a nil function value: the statement returns and the goroutine it starts panics.
\<close>

datatype ('mt, 'h, 'lh) event =
    CommandHandle "('mt, 'h) CommandInterface" "'mt ConversationInterface"
  | Go "'lh option" "'mt ConversationInterface"
  | GoProcess Message
  | LogPrintf string
  | JSONSend "Conn option" Message
  | Call_sendHelp Message
  | Call_searchCommand Message
  | Call_searchListener Message

datatype fault = NilPointerDereference

section \<open>Listener\<close>

record 'lh Listener =
  regex :: string
  handler :: "'lh option"

definition Listener_zero :: "'lh Listener" where
  "Listener_zero = \<lparr>regex = [], handler = None\<rparr>"

definition SetHandler :: "'lh option \<Rightarrow> 'lh Listener \<Rightarrow> 'lh Listener" where
  "SetHandler h c = c\<lparr>handler := h\<rparr>"

text \<open>\<open>go c.handler(conv)\<close>: the call starts the goroutine and returns.\<close>

definition Handle :: "'lh Listener \<Rightarrow> 'mt ConversationInterface \<Rightarrow> ('mt, 'h, 'lh) event list" where
  "Handle c conv = [Go (handler c) conv]"

definition Get :: "'lh Listener \<Rightarrow> string" where
  "Get c = regex c"

definition Set :: "string \<Rightarrow> 'lh Listener \<Rightarrow> 'lh Listener" where
  "Set cmd c = c\<lparr>regex := cmd\<rparr>"

definition NewListener :: "string \<Rightarrow> 'lh option \<Rightarrow> 'lh Listener" where
  "NewListener regex' handler' =
     (let cmd = Listener_zero;
          cmd = Set regex' cmd;
          cmd = SetHandler handler' cmd
      in cmd)"

section \<open>Bot\<close>

record ('mt, 'h, 'lh) Bot =
  Socket :: "Conn option"
  Token :: string
  ID :: string
  Commands :: "('mt, 'h) CommandInterface list"
  Listeners :: "'lh Listener list"
  Prefix :: string

text \<open>
  The \<open>regexp\<close> package of the Go standard library, as searchListener uses it.
  \<open>Compile\<close> returns a \<open>*Regexp\<close> and an error; on an error the pointer is nil, which is
  \<open>None\<close> here. \<open>MatchString\<close> reports whether the string contains a match of the
  compiled expression.
\<close>

record 'r regexp =
  Compile :: "string \<Rightarrow> 'r option"
  MatchString :: "'r \<Rightarrow> string \<Rightarrow> bool"

subsection \<open>searchCommand\<close>

text \<open>
  The loop \<open>for i := 0; i < len(b.Commands); i++\<close> with its variable \<open>c\<close>; \<open>tr\<close> is the
  trace so far.
\<close>

function searchCommand_loop ::
  "MessageMethods \<Rightarrow> ('mt, 'h, 'lh) Bot \<Rightarrow> Message \<Rightarrow> nat \<Rightarrow> bool \<Rightarrow> ('mt, 'h, 'lh) event list
   \<Rightarrow> bool \<times> ('mt, 'h, 'lh) event list" where
  "searchCommand_loop M b msg i c tr =
     (if i < length (Commands b) then
        (let cmd = Commands b ! i in
         case Match (CommandInterface.Get cmd) (Text M msg) of
           Some match \<Rightarrow>
             searchCommand_loop M b msg (i + 1) True
               (tr @ [CommandHandle cmd (NewConversation match msg (Socket b))])
         | None \<Rightarrow> searchCommand_loop M b msg (i + 1) c tr)
      else (c, tr))"
  by pat_completeness auto
termination
  by (relation "measure (\<lambda>(M, b, msg, i, c, tr). length (Commands b) - i)") auto

declare searchCommand_loop.simps [simp del]

definition searchCommand ::
  "MessageMethods \<Rightarrow> ('mt, 'h, 'lh) Bot \<Rightarrow> Message \<Rightarrow> bool \<times> ('mt, 'h, 'lh) event list" where
  "searchCommand M b msg = searchCommand_loop M b msg 0 False []"

subsection \<open>searchListener\<close>

text \<open>
  \<open>r, _ := regexp.Compile(lst.Get())\<close> drops the error: when the string does not compile,
  \<open>r\<close> is nil and \<open>r.MatchString\<close> dereferences it. The result is the fault or the returned
  boolean, with the trace up to that point.
\<close>

function searchListener_loop ::
  "'r regexp \<Rightarrow> ('mt, 'h, 'lh) Bot \<Rightarrow> Message \<Rightarrow> nat \<Rightarrow> bool \<Rightarrow> ('mt, 'h, 'lh) event list
   \<Rightarrow> (fault + bool) \<times> ('mt, 'h, 'lh) event list" where
  "searchListener_loop RE b msg i l tr =
     (if i < length (Listeners b) then
        (let lst = Listeners b ! i in
         case Compile RE (Get lst) of
           None \<Rightarrow> (Inl NilPointerDereference, tr)
         | Some r \<Rightarrow>
             if MatchString RE r (Message msg) then
               (let tr = tr @ [LogPrintf (''Listener Matched: '' @ Message msg @ [CHR 0x0A])];
                    tr = tr @ Handle lst (NewListenerConversation msg (Socket b))
                in searchListener_loop RE b msg (i + 1) True tr)
             else searchListener_loop RE b msg (i + 1) l tr)
      else (Inr l, tr))"
  by pat_completeness auto
termination
  by (relation "measure (\<lambda>(RE, b, msg, i, l, tr). length (Listeners b) - i)") auto

declare searchListener_loop.simps [simp del]

definition searchListener ::
  "'r regexp \<Rightarrow> ('mt, 'h, 'lh) Bot \<Rightarrow> Message \<Rightarrow> (fault + bool) \<times> ('mt, 'h, 'lh) event list" where
  "searchListener RE b msg = searchListener_loop RE b msg 0 False []"

subsection \<open>sendHelp\<close>

text \<open>
  Go strings are byte strings: the en dash of the source text is its three bytes in UTF-8.
\<close>

definition help_separator :: string where
  "help_separator = '' *'' @ [CHR 0xE2, CHR 0x80, CHR 0x93] @ ''* ''"

function sendHelp_loop :: "('mt, 'h, 'lh) Bot \<Rightarrow> nat \<Rightarrow> string \<Rightarrow> string" where
  "sendHelp_loop b i help =
     (if i < length (Commands b) then
        (let cmd = Commands b ! i;
             help = help @ ''`'' @ allot_Command.Text (CommandInterface.Get cmd) @ ''`'';
             help = (if Description cmd \<noteq> [] then help @ help_separator @ Description cmd
                     else help);
             help = help @ [CHR 0x0A]
         in sendHelp_loop b (i + 1) help)
      else help)"
  by pat_completeness auto
termination
  by (relation "measure (\<lambda>(b, i, help). length (Commands b) - i)") auto

declare sendHelp_loop.simps [simp del]

definition sendHelp ::
  "MessageMethods \<Rightarrow> ('mt, 'h, 'lh) Bot \<Rightarrow> Message \<Rightarrow> ('mt, 'h, 'lh) event list" where
  "sendHelp M b msg =
     (let help = ''I can support you with those features:'' @ [CHR 0x0A, CHR 0x0A];
          help = sendHelp_loop b 0 help;
          help = (if \<not> IsDirectMessage M msg then ''<@'' @ User M msg @ ''>: '' @ help
                  else help);
          msg = SetText M help msg
      in [JSONSend (Socket b) msg])"

subsection \<open>process\<close>

text \<open>
  \<open>process\<close> receives the message by value and the strip methods change that copy. The
  trace records each call of \<open>sendHelp\<close>, \<open>searchCommand\<close> and \<open>searchListener\<close> with the
  message it is called on, before the events of the call. The call on line 117 is reached
  from the bot-addressed branch when no command matched, and from the other branch; it
  stands once in each.
\<close>

definition process ::
  "MessageMethods \<Rightarrow> 'r regexp \<Rightarrow> ('mt, 'h, 'lh) Bot \<Rightarrow> Message
   \<Rightarrow> (fault + unit) \<times> ('mt, 'h, 'lh) event list" where
  "process M RE b message =
     (if IsBotMessage M (Prefix b) (ID b) message then
        (let message = StripMention M (ID b) message;
             message = StripLinkMarkup M message;
             message = StripPrefix M (Prefix b) message
         in if IsHelpRequest M message then
              (Inr (), Call_sendHelp message # sendHelp M b message)
            else
              (case searchCommand M b message of
                 (c, tr) \<Rightarrow>
                   if c then (Inr (), Call_searchCommand message # tr)
                   else
                     (case searchListener RE b message of
                        (r, tr') \<Rightarrow>
                          (map_sum id (\<lambda>l. ()) r,
                           Call_searchCommand message # tr @ Call_searchListener message # tr'))))
      else
        (case searchListener RE b message of
           (r, tr') \<Rightarrow> (map_sum id (\<lambda>l. ()) r, Call_searchListener message # tr')))"

subsection \<open>Registration\<close>

definition SetPrefix :: "string \<Rightarrow> ('mt, 'h, 'lh) Bot \<Rightarrow> ('mt, 'h, 'lh) Bot" where
  "SetPrefix prefix b = b\<lparr>Prefix := prefix\<rparr>"

definition Command ::
  "(string \<Rightarrow> string \<Rightarrow> 'mt option) \<Rightarrow> string \<Rightarrow> 'h option \<Rightarrow> ('mt, 'h, 'lh) Bot
   \<Rightarrow> ('mt, 'h, 'lh) Bot" where
  "Command matcher cmd handler' b =
     b\<lparr>Commands := Commands b @ [NewCommand matcher cmd [] handler']\<rparr>"

definition Hear :: "string \<Rightarrow> 'lh option \<Rightarrow> ('mt, 'h, 'lh) Bot \<Rightarrow> ('mt, 'h, 'lh) Bot" where
  "Hear regex' handler' b = b\<lparr>Listeners := Listeners b @ [NewListener regex' handler']\<rparr>"

definition RegisterCommand ::
  "('mt, 'h) CommandInterface \<Rightarrow> ('mt, 'h, 'lh) Bot \<Rightarrow> ('mt, 'h, 'lh) Bot" where
  "RegisterCommand cmd b = b\<lparr>Commands := Commands b @ [cmd]\<rparr>"

definition RegisterListener :: "'lh Listener \<Rightarrow> ('mt, 'h, 'lh) Bot \<Rightarrow> ('mt, 'h, 'lh) Bot" where
  "RegisterListener lst b = b\<lparr>Listeners := Listeners b @ [lst]\<rparr>"

subsection \<open>Handshake\<close>

text \<open>
  The world outside the bot: the HTTP request, the JSON decoder and the websocket dial are
  parameters. \<open>http_Get\<close> is \<open>None\<close> on an error; \<open>Body\<close> is what \<open>ioutil.ReadAll\<close>
  returns, \<open>None\<close> on an error; \<open>json_Unmarshal\<close> and \<open>websocket_Dial\<close> are \<open>None\<close> on an
  error. The trace of \<open>Handshake\<close> records the requests it makes.
\<close>

record http_Response =
  StatusCode :: int
  Body :: "string option"

record network =
  http_Get :: "string \<Rightarrow> http_Response option"
  json_Unmarshal :: "string \<Rightarrow> handshakeResponse option"
  websocket_Dial :: "string \<Rightarrow> string \<Rightarrow> string \<Rightarrow> Conn option"

datatype net_event =
    HTTP_Get string
  | Body_Close
  | Websocket_Dial string string string

text \<open>The verb \<open>%d\<close> of \<open>fmt\<close>: an integer in decimal.\<close>

fun nat_digits :: "nat \<Rightarrow> string" where
  "nat_digits n =
     (if n < 10 then [char_of (48 + n)]
      else nat_digits (n div 10) @ [char_of (48 + n mod 10)])"

declare nat_digits.simps [simp del]

definition fmt_d :: "int \<Rightarrow> string" where
  "fmt_d i = (if i < 0 then ''-'' @ nat_digits (nat (- i)) else nat_digits (nat i))"

definition Handshake ::
  "network \<Rightarrow> ('mt, 'h, 'lh) Bot \<Rightarrow> (string + ('mt, 'h, 'lh) Bot) \<times> net_event list" where
  "Handshake N b =
     (let url = ''https://slack.com/api/rtm.start?token='' @ Token b in
      case http_Get N url of
        None \<Rightarrow> (Inl ''Failed to connect to Slack RTM API'', [HTTP_Get url])
      | Some res \<Rightarrow>
          if StatusCode res \<noteq> 200 then
            (Inl (''Failed with HTTP Code: '' @ fmt_d (StatusCode res)), [HTTP_Get url])
          else
            (case Body res of
               None \<Rightarrow> (Inl ''Failed to read body from response'', [HTTP_Get url, Body_Close])
             | Some body \<Rightarrow>
                 (case json_Unmarshal N body of
                    None \<Rightarrow> (Inl (''Failed to unmarshal JSON: '' @ body), [HTTP_Get url, Body_Close])
                  | Some response \<Rightarrow>
                      if \<not> Ok response then (Inl (Error response), [HTTP_Get url, Body_Close])
                      else
                        (let b = b\<lparr>ID := handshakeResponseSelf.ID (Self response)\<rparr>;
                             origin = ''https://api.slack.com/''
                         in case websocket_Dial N (URL response) [] origin of
                              None \<Rightarrow>
                                (Inl ''Failed to connect to Websocket'',
                                 [HTTP_Get url, Body_Close, Websocket_Dial (URL response) [] origin])
                            | Some conn \<Rightarrow>
                                (Inr (b\<lparr>Socket := Some conn\<rparr>),
                                 [HTTP_Get url, Body_Close, Websocket_Dial (URL response) [] origin])))))"

definition New :: "network \<Rightarrow> string \<Rightarrow> (string + ('mt, 'h, 'lh) Bot) \<times> net_event list" where
  "New N token =
     (let bot = \<lparr>Socket = None, Token = token, ID = [], Commands = [], Listeners = [],
                 Prefix = ''!''\<rparr>
      in Handshake N bot)"

subsection \<open>Listen\<close>

text \<open>
  \<open>websocket.JSON.Receive(b.Socket, &msg)\<close> is a parameter: given the socket, the number of
  receives made before and the contents of \<open>msg\<close>, it returns the error (\<open>None\<close> for nil)
  and the new contents of \<open>msg\<close>. A read on a closed connection and a frame that does not
  decode are both an error. \<open>go b.process(msg)\<close> is the event \<open>GoProcess\<close> with the message
  the goroutine gets.
\<close>

type_synonym transport = "Conn option \<Rightarrow> nat \<Rightarrow> Message \<Rightarrow> string option \<times> Message"

record ('mt, 'h, 'lh) Listen_state =
  receives :: nat
  msg_var :: Message
  trace :: "('mt, 'h, 'lh) event list"

definition Listen_init :: "('mt, 'h, 'lh) Listen_state" where
  "Listen_init = \<lparr>receives = 0, msg_var = Message_zero, trace = []\<rparr>"

text \<open>One turn of the loop \<open>for { ... }\<close>.\<close>

definition Listen_body ::
  "transport \<Rightarrow> ('mt, 'h, 'lh) Bot \<Rightarrow> ('mt, 'h, 'lh) Listen_state \<Rightarrow> ('mt, 'h, 'lh) Listen_state" where
  "Listen_body R b s =
     (case R (Socket b) (receives s) (msg_var s) of
        (err, msg) \<Rightarrow>
          if err = None then
            s\<lparr>receives := receives s + 1, msg_var := Message_zero,
              trace := trace s @ [GoProcess msg]\<rparr>
          else s\<lparr>receives := receives s + 1, msg_var := msg\<rparr>)"

text \<open>
  The loop has no condition, no \<open>break\<close> and no \<open>return\<close>, so it may run forever: it is
  run on fuel, one unit for each turn. \<open>(None, s)\<close> says that the fuel is used up, the call
  has not returned and \<open>s\<close> is the state at the head of the loop; \<open>(Some (), s)\<close> would say
  that the call has returned in state \<open>s\<close>.
\<close>

fun Listen_loop ::
  "nat \<Rightarrow> transport \<Rightarrow> ('mt, 'h, 'lh) Bot \<Rightarrow> ('mt, 'h, 'lh) Listen_state
   \<Rightarrow> unit option \<times> ('mt, 'h, 'lh) Listen_state" where
  "Listen_loop 0 R b s = (None, s)"
| "Listen_loop (Suc fuel) R b s = Listen_loop fuel R b (Listen_body R b s)"

definition Listen ::
  "nat \<Rightarrow> transport \<Rightarrow> ('mt, 'h, 'lh) Bot \<Rightarrow> unit option \<times> ('mt, 'h, 'lh) Listen_state" where
  "Listen fuel R b = Listen_loop fuel R b Listen_init"

section \<open>Notions used in the statements\<close>

text \<open>
  The commands of the registry whose pattern matches the text of the message, in
  registration order, and the calls of \<open>Handle\<close> the spec asks for: one for each matching
  command, with the conversation built from that command's own match.
\<close>

definition matching_commands ::
  "MessageMethods \<Rightarrow> ('mt, 'h, 'lh) Bot \<Rightarrow> Message \<Rightarrow> ('mt, 'h) CommandInterface list" where
  "matching_commands M b msg =
     filter (\<lambda>cmd. Match (CommandInterface.Get cmd) (Text M msg) \<noteq> None) (Commands b)"

definition command_call ::
  "MessageMethods \<Rightarrow> ('mt, 'h, 'lh) Bot \<Rightarrow> Message \<Rightarrow> ('mt, 'h) CommandInterface
   \<Rightarrow> ('mt, 'h, 'lh) event option" where
  "command_call M b msg cmd =
     map_option (\<lambda>match. CommandHandle cmd (NewConversation match msg (Socket b)))
       (Match (CommandInterface.Get cmd) (Text M msg))"

definition scheduled_handlers ::
  "MessageMethods \<Rightarrow> ('mt, 'h, 'lh) Bot \<Rightarrow> Message \<Rightarrow> ('mt, 'h, 'lh) event list" where
  "scheduled_handlers M b msg = List.map_filter (command_call M b msg) (Commands b)"

text \<open>The help reply of the spec: a heading, then one line for each command.\<close>

definition help_heading :: string where
  "help_heading = ''I can support you with those features:'' @ [CHR 0x0A, CHR 0x0A]"

definition help_line :: "('mt, 'h) CommandInterface \<Rightarrow> string" where
  "help_line cmd =
     ''`'' @ allot_Command.Text (CommandInterface.Get cmd) @ ''`'' @
     (if Description cmd = [] then [] else help_separator @ Description cmd) @ [CHR 0x0A]"

definition help_mention :: "MessageMethods \<Rightarrow> Message \<Rightarrow> string" where
  "help_mention M msg = (if IsDirectMessage M msg then [] else ''<@'' @ User M msg @ ''>: '')"

definition help_reply :: "MessageMethods \<Rightarrow> ('mt, 'h, 'lh) Bot \<Rightarrow> Message \<Rightarrow> string" where
  "help_reply M b msg = help_mention M msg @ help_heading @ concat (map help_line (Commands b))"

text \<open>The message after the three strips of \<open>process\<close>.\<close>

definition stripped :: "MessageMethods \<Rightarrow> ('mt, 'h, 'lh) Bot \<Rightarrow> Message \<Rightarrow> Message" where
  "stripped M b message =
     StripPrefix M (Prefix b) (StripLinkMarkup M (StripMention M (ID b) message))"

text \<open>The messages that the calls recorded in a trace were made on.\<close>

definition calls_sendHelp :: "('mt, 'h, 'lh) event list \<Rightarrow> Message list" where
  "calls_sendHelp tr = concat (map (\<lambda>e. case e of Call_sendHelp m \<Rightarrow> [m] | _ \<Rightarrow> []) tr)"

definition calls_searchCommand :: "('mt, 'h, 'lh) event list \<Rightarrow> Message list" where
  "calls_searchCommand tr = concat (map (\<lambda>e. case e of Call_searchCommand m \<Rightarrow> [m] | _ \<Rightarrow> []) tr)"

definition calls_searchListener :: "('mt, 'h, 'lh) event list \<Rightarrow> Message list" where
  "calls_searchListener tr = concat (map (\<lambda>e. case e of Call_searchListener m \<Rightarrow> [m] | _ \<Rightarrow> []) tr)"

text \<open>
  A listener fires on a text when its regex compiles and the compiled expression matches
  the text. The events of a listener that fires: the log line, then the go statement on
  its handler.
\<close>

definition regex_matches :: "'r regexp \<Rightarrow> string \<Rightarrow> string \<Rightarrow> bool" where
  "regex_matches RE re text' =
     (case Compile RE re of None \<Rightarrow> False | Some r \<Rightarrow> MatchString RE r text')"

definition fired_listeners :: "'r regexp \<Rightarrow> ('mt, 'h, 'lh) Bot \<Rightarrow> string \<Rightarrow> 'lh Listener list" where
  "fired_listeners RE b text' = filter (\<lambda>lst. regex_matches RE (Get lst) text') (Listeners b)"

definition listener_call ::
  "('mt, 'h, 'lh) Bot \<Rightarrow> string \<Rightarrow> Message \<Rightarrow> 'lh Listener \<Rightarrow> ('mt, 'h, 'lh) event list" where
  "listener_call b text' msg lst =
     [LogPrintf (''Listener Matched: '' @ text' @ [CHR 0x0A]),
      Go (handler lst) (NewListenerConversation msg (Socket b))]"

definition listener_pass ::
  "'r regexp \<Rightarrow> ('mt, 'h, 'lh) Bot \<Rightarrow> string \<Rightarrow> Message \<Rightarrow> ('mt, 'h, 'lh) event list" where
  "listener_pass RE b text' msg =
     concat (map (listener_call b text' msg) (fired_listeners RE b text'))"

definition valid_listeners :: "'r regexp \<Rightarrow> ('mt, 'h, 'lh) Bot \<Rightarrow> bool" where
  "valid_listeners RE b =
     list_all (\<lambda>lst. Compile RE (Get lst) \<noteq> None \<and> handler lst \<noteq> None) (Listeners b)"

definition dials :: "net_event list \<Rightarrow> (string \<times> string \<times> string) list" where
  "dials tr = concat (map (\<lambda>e. case e of Websocket_Dial u p org \<Rightarrow> [(u, p, org)] | _ \<Rightarrow> []) tr)"

subsection \<open>The strip methods of the spec\<close>

text \<open>
  Modelled from the spec: \<open>StripMention\<close>, \<open>StripLinkMarkup\<close> and \<open>StripPrefix\<close> of
  message.go, which is not among the sources at hand. The spec: each of them changes the
  derived text of the message, in place, and the raw text stays as received. What each
  removes from the derived text is a parameter.
\<close>

record text_ops =
  remove_mention :: "string \<Rightarrow> string \<Rightarrow> string"
  remove_link_markup :: "string \<Rightarrow> string"
  remove_prefix :: "string \<Rightarrow> string \<Rightarrow> string"

definition StripMention_spec :: "text_ops \<Rightarrow> string \<Rightarrow> Message \<Rightarrow> Message" where
  "StripMention_spec T botID m = m\<lparr>DerivedText := remove_mention T botID (DerivedText m)\<rparr>"

definition StripLinkMarkup_spec :: "text_ops \<Rightarrow> Message \<Rightarrow> Message" where
  "StripLinkMarkup_spec T m = m\<lparr>DerivedText := remove_link_markup T (DerivedText m)\<rparr>"

definition StripPrefix_spec :: "text_ops \<Rightarrow> string \<Rightarrow> Message \<Rightarrow> Message" where
  "StripPrefix_spec T prefix m = m\<lparr>DerivedText := remove_prefix T prefix (DerivedText m)\<rparr>"

definition spec_strips :: "text_ops \<Rightarrow> MessageMethods \<Rightarrow> MessageMethods" where
  "spec_strips T M =
     M\<lparr>StripMention := StripMention_spec T,
       StripLinkMarkup := StripLinkMarkup_spec T,
       StripPrefix := StripPrefix_spec T\<rparr>"

subsection \<open>Concrete inputs\<close>

text \<open>
  Instances of the parameters, small enough to evaluate: a pattern without placeholders
  matches the text equal to it; a regular expression without metacharacters matches the
  texts that contain it, and the string \<open>(\<close> does not compile; the help keyword is
  \<open>help\<close>; a message is addressed to the bot when its derived text starts with the prefix
  or its channel is direct.
\<close>

definition demo_matcher :: "string \<Rightarrow> string \<Rightarrow> string option" where
  "demo_matcher pattern text' = (if text' = pattern then Some text' else None)"

fun contains_text :: "string \<Rightarrow> string \<Rightarrow> bool" where
  "contains_text p [] = (p = [])"
| "contains_text p (c # cs) = (take (length p) (c # cs) = p \<or> contains_text p cs)"

definition demo_regexp :: "string regexp" where
  "demo_regexp =
     \<lparr>Compile = (\<lambda>s. if s = ''('' then None else Some s),
      MatchString = (\<lambda>r s. contains_text r s)\<rparr>"

definition demo_text_ops :: text_ops where
  "demo_text_ops =
     \<lparr>remove_mention = (\<lambda>botID t. t),
      remove_link_markup = (\<lambda>t. t),
      remove_prefix = (\<lambda>p t. if take (length p) t = p then drop (length p) t else t)\<rparr>"

definition demo_methods :: MessageMethods where
  "demo_methods =
     \<lparr>IsBotMessage = (\<lambda>prefix botID m. take (length prefix) (DerivedText m) = prefix \<or> Direct m),
      StripMention = StripMention_spec demo_text_ops,
      StripLinkMarkup = StripLinkMarkup_spec demo_text_ops,
      StripPrefix = StripPrefix_spec demo_text_ops,
      IsHelpRequest = (\<lambda>m. DerivedText m = ''help''),
      Text = DerivedText,
      IsDirectMessage = Direct,
      User = UserID,
      SetText = (\<lambda>t m. m\<lparr>DerivedText := t\<rparr>)\<rparr>"

definition demo_ping :: "(string, nat) CommandInterface" where
  "demo_ping = NewCommand demo_matcher ''ping'' [] (Some 1)"

definition demo_pong :: "(string, nat) CommandInterface" where
  "demo_pong = NewCommand demo_matcher ''pong'' ''answers'' (Some 2)"

definition demo_ping_again :: "(string, nat) CommandInterface" where
  "demo_ping_again = NewCommand demo_matcher ''ping'' ''again'' (Some 3)"

definition demo_bot :: "(string, nat, nat) Bot" where
  "demo_bot =
     \<lparr>Socket = Some 1, Token = ''xoxb'', ID = ''U1'',
      Commands = [demo_ping, demo_pong, demo_ping_again],
      Listeners = [NewListener ''!foo'' (Some 7)],
      Prefix = ''!''\<rparr>"

definition inbound :: "string \<Rightarrow> bool \<Rightarrow> Message" where
  "inbound text' direct =
     \<lparr>Message = text', DerivedText = text', UserID = ''U2'', Channel = ''C1'', Direct = direct\<rparr>"

text \<open>A transport whose connection has ended: every read reports the end of the stream.\<close>

definition closed_transport :: transport where
  "closed_transport sock n m = (Some ''EOF'', m)"

text \<open>A transport whose first frame does not decode and whose later frames do.\<close>

definition flaky_transport :: transport where
  "flaky_transport sock n m =
     (if n = 0 then (Some ''malformed frame'', m) else (None, inbound ''hi'' False))"

text \<open>The bot after \<open>Hear("(", h)\<close>: its second listener is not a regular expression.\<close>

definition demo_bad_bot :: "(string, nat, nat) Bot" where
  "demo_bad_bot = Hear ''('' (Some 8) demo_bot"

text \<open>A negotiation call that is answered with \<open>ok = false\<close> and \<open>invalid_auth\<close>.\<close>

definition invalid_auth_response :: handshakeResponse where
  "invalid_auth_response = \<lparr>Ok = False, Error = ''invalid_auth'', URL = [], Self = \<lparr>handshakeResponseSelf.ID = []\<rparr>\<rparr>"

definition invalid_auth_network :: network where
  "invalid_auth_network =
     \<lparr>http_Get = (\<lambda>url. Some \<lparr>StatusCode = 200, Body = Some ''{}''\<rparr>),
      json_Unmarshal = (\<lambda>body. Some invalid_auth_response),
      websocket_Dial = (\<lambda>url protocol origin. Some 1)\<rparr>"

text \<open>The same answer, sent with status 201.\<close>

definition status_201_network :: network where
  "status_201_network =
     \<lparr>http_Get = (\<lambda>url. Some \<lparr>StatusCode = 201, Body = Some ''{}''\<rparr>),
      json_Unmarshal = (\<lambda>body. Some invalid_auth_response),
      websocket_Dial = (\<lambda>url protocol origin. Some 1)\<rparr>"

section \<open>The loops in closed form\<close>

lemma searchCommand_loop_eq:
  "searchCommand_loop M b msg i c tr =
     (c \<or> filter (\<lambda>cmd. Match (CommandInterface.Get cmd) (Text M msg) \<noteq> None)
             (drop i (Commands b)) \<noteq> [],
      tr @ List.map_filter (command_call M b msg) (drop i (Commands b)))"
proof (induction M b msg i c tr rule: searchCommand_loop.induct)
  case (1 M b msg i c tr)
  show ?case
  proof (cases "i < length (Commands b)")
    case False
    then show ?thesis
      by (subst searchCommand_loop.simps) simp
  next
    case True
    then have d: "drop i (Commands b) = Commands b ! i # drop (Suc i) (Commands b)"
      by (simp add: Cons_nth_drop_Suc)
    show ?thesis
    proof (cases "Match (CommandInterface.Get (Commands b ! i)) (Text M msg)")
      case None
      then have cc: "command_call M b msg (Commands b ! i) = None"
        by (simp add: command_call_def)
      with None True d "1.IH"(1) [OF True refl None] show ?thesis
        by (subst searchCommand_loop.simps) simp
    next
      case (Some match)
      then have cc: "command_call M b msg (Commands b ! i) =
          Some (CommandHandle (Commands b ! i) (NewConversation match msg (Socket b)))"
        by (simp add: command_call_def)
      with Some True d "1.IH"(2) [OF True refl Some] show ?thesis
        by (subst searchCommand_loop.simps) simp
    qed
  qed
qed

lemma searchCommand_eq:
  "searchCommand M b msg = (matching_commands M b msg \<noteq> [], scheduled_handlers M b msg)"
  by (simp add: searchCommand_def searchCommand_loop_eq matching_commands_def
      scheduled_handlers_def)

lemma searchListener_loop_valid:
  assumes "valid_listeners RE b"
  shows "searchListener_loop RE b msg i l tr =
     (Inr (l \<or> filter (\<lambda>lst. regex_matches RE (Get lst) (Message msg))
                 (drop i (Listeners b)) \<noteq> []),
      tr @ concat (map (listener_call b (Message msg) msg)
                    (filter (\<lambda>lst. regex_matches RE (Get lst) (Message msg))
                       (drop i (Listeners b)))))"
proof (induction "length (Listeners b) - i" arbitrary: i l tr)
  case 0
  then show ?case
    by (subst searchListener_loop.simps) simp
next
  case (Suc n)
  then have lt: "i < length (Listeners b)" and n: "n = length (Listeners b) - Suc i"
    by simp_all
  let ?lst = "Listeners b ! i"
  from lt have d: "drop i (Listeners b) = ?lst # drop (Suc i) (Listeners b)"
    by (simp add: Cons_nth_drop_Suc)
  from assms lt have "Compile RE (Get ?lst) \<noteq> None \<and> handler ?lst \<noteq> None"
    by (simp add: valid_listeners_def list_all_length)
  then obtain r where r: "Compile RE (Get ?lst) = Some r"
    by auto
  show ?case
  proof (cases "MatchString RE r (Message msg)")
    case True
    with r have m: "regex_matches RE (Get ?lst) (Message msg)"
      by (simp add: regex_matches_def)
    show ?thesis
      by (subst searchListener_loop.simps)
         (simp add: lt r True d m Handle_def listener_call_def Suc.hyps(1) [OF n])
  next
    case False
    with r have m: "\<not> regex_matches RE (Get ?lst) (Message msg)"
      by (simp add: regex_matches_def)
    show ?thesis
      by (subst searchListener_loop.simps) (simp add: lt r False d m Suc.hyps(1) [OF n])
  qed
qed

lemma searchListener_valid:
  "valid_listeners RE b \<Longrightarrow>
   searchListener RE b msg =
     (Inr (fired_listeners RE b (Message msg) \<noteq> []), listener_pass RE b (Message msg) msg)"
  by (simp add: searchListener_def searchListener_loop_valid fired_listeners_def
      listener_pass_def)

lemma searchListener_loop_invalid:
  assumes "i \<le> j" "j < length (Listeners b)" "Compile RE (Get (Listeners b ! j)) = None"
  shows "\<exists>f. fst (searchListener_loop RE b msg i l tr) = Inl f"
  using assms
proof (induction "j - i" arbitrary: i l tr)
  case 0
  then have "i = j" by simp
  with 0 show ?case
    by (subst searchListener_loop.simps) simp
next
  case (Suc n)
  then have lt: "i < length (Listeners b)" and n: "n = j - Suc i" and le: "Suc i \<le> j"
    by simp_all
  note IH = Suc.hyps(1) [OF n le Suc.prems(2,3)]
  show ?case
    by (subst searchListener_loop.simps) (simp add: lt IH Let_def split: option.split)
qed

lemma sendHelp_loop_eq:
  "sendHelp_loop b i acc = acc @ concat (map help_line (drop i (Commands b)))"
proof (induction "length (Commands b) - i" arbitrary: i acc)
  case 0
  then show ?case
    by (subst sendHelp_loop.simps) simp
next
  case (Suc n)
  then have lt: "i < length (Commands b)" and n: "n = length (Commands b) - Suc i"
    by simp_all
  from lt have d: "drop i (Commands b) = Commands b ! i # drop (Suc i) (Commands b)"
    by (simp add: Cons_nth_drop_Suc)
  show ?case
    by (subst sendHelp_loop.simps) (simp add: lt d Suc.hyps(1) [OF n] help_line_def Let_def)
qed

lemma sendHelp_eq:
  "sendHelp M b msg = [JSONSend (Socket b) (SetText M (help_reply M b msg) msg)]"
  by (simp add: sendHelp_def sendHelp_loop_eq help_reply_def help_mention_def help_heading_def)

lemma scheduled_handlers_map:
  "List.map_filter (command_call M b msg) cmds =
     map (\<lambda>cmd. CommandHandle cmd
            (NewConversation (the (Match (CommandInterface.Get cmd) (Text M msg))) msg (Socket b)))
       (filter (\<lambda>cmd. Match (CommandInterface.Get cmd) (Text M msg) \<noteq> None) cmds)"
  by (induction cmds) (auto simp: command_call_def)

lemma scheduled_handlers_Nil:
  "matching_commands M b msg = [] \<Longrightarrow> scheduled_handlers M b msg = []"
proof -
  have "filter (\<lambda>cmd. Match (CommandInterface.Get cmd) (Text M msg) \<noteq> None) cmds = [] \<Longrightarrow>
        List.map_filter (command_call M b msg) cmds = []" for cmds
    by (induction cmds) (auto simp: command_call_def map_filter_simps split: if_splits)
  then show "matching_commands M b msg = [] \<Longrightarrow> scheduled_handlers M b msg = []"
    by (simp add: matching_commands_def scheduled_handlers_def)
qed

section \<open>Calls recorded in a trace\<close>

lemma searchListener_loop_calls:
  assumes "\<And>s. f (LogPrintf s) = []" and "\<And>h c. f (Go h c) = []"
  shows "concat (map f (snd (searchListener_loop RE b msg i l tr))) = concat (map f tr)"
proof (induction "length (Listeners b) - i" arbitrary: i l tr)
  case 0
  then show ?case
    by (subst searchListener_loop.simps) simp
next
  case (Suc n)
  then have lt: "i < length (Listeners b)" and n: "n = length (Listeners b) - Suc i"
    by simp_all
  note IH = Suc.hyps(1) [OF n]
  show ?case
    by (subst searchListener_loop.simps)
       (simp add: lt IH assms Handle_def Let_def split: option.split)
qed

lemma searchListener_no_calls:
  "calls_sendHelp (snd (searchListener RE b msg)) = []"
  "calls_searchCommand (snd (searchListener RE b msg)) = []"
  "calls_searchListener (snd (searchListener RE b msg)) = []"
  unfolding calls_sendHelp_def calls_searchCommand_def calls_searchListener_def searchListener_def
  by (simp_all add: searchListener_loop_calls)

lemma map_filter_command_call_calls:
  assumes "\<And>c v. f (CommandHandle c v) = []"
  shows "concat (map f (List.map_filter (command_call M b msg) cmds)) = []"
  by (induction cmds) (auto simp: command_call_def assms map_filter_simps split: option.split)

lemma scheduled_handlers_no_calls:
  "calls_sendHelp (scheduled_handlers M b msg) = []"
  "calls_searchCommand (scheduled_handlers M b msg) = []"
  "calls_searchListener (scheduled_handlers M b msg) = []"
  unfolding calls_sendHelp_def calls_searchCommand_def calls_searchListener_def
    scheduled_handlers_def
  by (simp_all add: map_filter_command_call_calls)

lemma calls_append:
  "calls_sendHelp (xs @ ys) = calls_sendHelp xs @ calls_sendHelp ys"
  "calls_searchCommand (xs @ ys) = calls_searchCommand xs @ calls_searchCommand ys"
  "calls_searchListener (xs @ ys) = calls_searchListener xs @ calls_searchListener ys"
  by (simp_all add: calls_sendHelp_def calls_searchCommand_def calls_searchListener_def)

lemma calls_Cons:
  "calls_sendHelp (Call_sendHelp m # xs) = m # calls_sendHelp xs"
  "calls_sendHelp (Call_searchCommand m # xs) = calls_sendHelp xs"
  "calls_sendHelp (Call_searchListener m # xs) = calls_sendHelp xs"
  "calls_searchCommand (Call_sendHelp m # xs) = calls_searchCommand xs"
  "calls_searchCommand (Call_searchCommand m # xs) = m # calls_searchCommand xs"
  "calls_searchCommand (Call_searchListener m # xs) = calls_searchCommand xs"
  "calls_searchListener (Call_sendHelp m # xs) = calls_searchListener xs"
  "calls_searchListener (Call_searchCommand m # xs) = calls_searchListener xs"
  "calls_searchListener (Call_searchListener m # xs) = m # calls_searchListener xs"
  "calls_sendHelp [JSONSend sock m] = []"
  "calls_searchCommand [JSONSend sock m] = []"
  "calls_searchListener [JSONSend sock m] = []"
  by (simp_all add: calls_sendHelp_def calls_searchCommand_def calls_searchListener_def)

section \<open>The listener pass inside process\<close>

lemma process_listener_pass:
  assumes "valid_listeners RE b"
  shows "\<not> IsBotMessage M (Prefix b) (ID b) message \<Longrightarrow>
           process M RE b message =
             (Inr (), Call_searchListener message # listener_pass RE b (Message message) message)"
    and "IsBotMessage M (Prefix b) (ID b) message \<Longrightarrow>
         \<not> IsHelpRequest M (stripped M b message) \<Longrightarrow>
         matching_commands M b (stripped M b message) = [] \<Longrightarrow>
           process M RE b message =
             (Inr (), Call_searchCommand (stripped M b message) #
                      Call_searchListener (stripped M b message) #
                      listener_pass RE b (Message (stripped M b message)) (stripped M b message))"
  using assms
  by (simp_all add: process_def stripped_def searchCommand_eq searchListener_valid
      scheduled_handlers_Nil Let_def)

lemma spec_strips_raw_text:
  "Message (stripped (spec_strips T M) b message) = Message message"
  by (simp add: stripped_def spec_strips_def StripMention_spec_def StripLinkMarkup_spec_def
      StripPrefix_spec_def)

section \<open>The receive loop\<close>

lemma Listen_loop_not_returned: "fst (Listen_loop n R b s) = None"
  by (induction n arbitrary: s) simp_all

lemma Listen_loop_Suc:
  "Listen_loop (Suc n) R b s = (None, Listen_body R b (snd (Listen_loop n R b s)))"
  by (induction n arbitrary: s) simp_all

lemma receives_Listen_body: "receives (Listen_body R b s) = Suc (receives s)"
  by (simp add: Listen_body_def split: prod.split)

lemma receives_Listen_loop: "receives (snd (Listen_loop n R b s)) = receives s + n"
proof (induction n)
  case 0
  show ?case by simp
next
  case (Suc n)
  then show ?case
    by (simp only: Listen_loop_Suc snd_conv receives_Listen_body add_Suc_right)
qed

section \<open>Evaluation at the concrete inputs\<close>

lemmas demo_defs = demo_methods_def demo_bot_def inbound_def demo_ping_def demo_pong_def
  demo_ping_again_def NewCommand_def allot_New_def demo_matcher_def demo_text_ops_def
  StripMention_spec_def StripLinkMarkup_spec_def StripPrefix_spec_def demo_regexp_def
  NewListener_def Listener_zero_def Set_def SetHandler_def Get_def

lemma demo_matching:
  "matching_commands demo_methods demo_bot (inbound ''ping'' True) = [demo_ping, demo_ping_again]"
  by (simp add: matching_commands_def demo_methods_def demo_bot_def inbound_def demo_ping_def
      demo_pong_def demo_ping_again_def NewCommand_def allot_New_def demo_matcher_def)

section \<open>Dispatch of a bot-addressed message\<close>

text \<open>
  C1: for every inbound message that is addressed to the bot, with \<open>m\<close> the message after
  the three strips: if \<open>m\<close> is a help request, help is sent (\<open>sendHelp\<close> is called on \<open>m\<close>
  and its reply goes out) and neither \<open>searchCommand\<close> nor \<open>searchListener\<close> is called;
  otherwise no help is sent and the command pass runs on \<open>m\<close>: the trace is the call of
  \<open>searchCommand\<close> on \<open>m\<close> and the events of \<open>searchCommand M b m\<close>. When a command matched
  that is all. When no command matched, and only then, the listener pass runs on the
  stripped message: the call of \<open>searchListener\<close> on \<open>m\<close> and the events of
  \<open>searchListener RE b m\<close> follow, and its fault, if any, is the fault of \<open>process\<close>.
\<close>

theorem process_dispatch:
  assumes "IsBotMessage M (Prefix b) (ID b) message"
  shows "let m = stripped M b message; tr = snd (process M RE b message) in
         if IsHelpRequest M m then
           process M RE b message =
             (Inr (), [Call_sendHelp m, JSONSend (Socket b) (SetText M (help_reply M b m) m)]) \<and>
           calls_sendHelp tr = [m] \<and> calls_searchCommand tr = [] \<and> calls_searchListener tr = []
         else if matching_commands M b m \<noteq> [] then
           process M RE b message = (Inr (), Call_searchCommand m # snd (searchCommand M b m)) \<and>
           fst (searchCommand M b m) \<and>
           calls_sendHelp tr = [] \<and> calls_searchCommand tr = [m] \<and> calls_searchListener tr = []
         else
           process M RE b message =
             (map_sum id (\<lambda>l. ()) (fst (searchListener RE b m)),
              Call_searchCommand m # snd (searchCommand M b m) @
              Call_searchListener m # snd (searchListener RE b m)) \<and>
           \<not> fst (searchCommand M b m) \<and>
           calls_sendHelp tr = [] \<and> calls_searchCommand tr = [m] \<and> calls_searchListener tr = [m]"
proof (cases "IsHelpRequest M (stripped M b message)")
  case True
  with assms have "process M RE b message =
      (Inr (), [Call_sendHelp (stripped M b message),
                JSONSend (Socket b)
                  (SetText M (help_reply M b (stripped M b message)) (stripped M b message))])"
    by (simp add: process_def stripped_def sendHelp_eq Let_def)
  with True show ?thesis
    by (simp add: calls_Cons)
next
  case False
  show ?thesis
  proof (cases "matching_commands M b (stripped M b message) = []")
    case True
    with assms False have "process M RE b message =
        (map_sum id (\<lambda>l. ()) (fst (searchListener RE b (stripped M b message))),
         Call_searchCommand (stripped M b message) # snd (searchCommand M b (stripped M b message)) @
         Call_searchListener (stripped M b message) # snd (searchListener RE b (stripped M b message)))"
      by (simp add: process_def searchCommand_eq stripped_def Let_def split: prod.split)
    with True False show ?thesis
      by (simp add: searchCommand_eq calls_Cons calls_append scheduled_handlers_no_calls
          searchListener_no_calls)
  next
    case nonempty: False
    with assms False have "process M RE b message =
        (Inr (), Call_searchCommand (stripped M b message) #
                 snd (searchCommand M b (stripped M b message)))"
      by (simp add: process_def searchCommand_eq stripped_def Let_def)
    with nonempty False show ?thesis
      by (simp add: searchCommand_eq calls_Cons scheduled_handlers_no_calls)
  qed
qed

theorem process_dispatch_witness:
  "IsBotMessage demo_methods (Prefix demo_bot) (ID demo_bot) (inbound ''!ping'' False) \<and>
   process demo_methods demo_regexp demo_bot (inbound ''!ping'' False) =
     (Inr (),
      [Call_searchCommand ((inbound ''!ping'' False)\<lparr>DerivedText := ''ping''\<rparr>),
       CommandHandle demo_ping
         (NewConversation ''ping'' ((inbound ''!ping'' False)\<lparr>DerivedText := ''ping''\<rparr>) (Some 1)),
       CommandHandle demo_ping_again
         (NewConversation ''ping'' ((inbound ''!ping'' False)\<lparr>DerivedText := ''ping''\<rparr>) (Some 1))]) \<and>
   calls_searchListener (snd (process demo_methods demo_regexp demo_bot (inbound ''!ping'' False))) = [] \<and>
   process demo_methods demo_regexp demo_bot (inbound ''!pang'' False) =
     (Inr (),
      [Call_searchCommand ((inbound ''!pang'' False)\<lparr>DerivedText := ''pang''\<rparr>),
       Call_searchListener ((inbound ''!pang'' False)\<lparr>DerivedText := ''pang''\<rparr>)]) \<and>
   calls_sendHelp (snd (process demo_methods demo_regexp demo_bot (inbound ''!help'' False))) =
     [(inbound ''!help'' False)\<lparr>DerivedText := ''help''\<rparr>] \<and>
   calls_searchCommand (snd (process demo_methods demo_regexp demo_bot (inbound ''!help'' False))) = []"
proof -
  let ?ping = "(inbound ''!ping'' False)\<lparr>DerivedText := ''ping''\<rparr>"
  let ?pang = "(inbound ''!pang'' False)\<lparr>DerivedText := ''pang''\<rparr>"
  let ?hreq = "(inbound ''!help'' False)\<lparr>DerivedText := ''help''\<rparr>"
  have a: "IsBotMessage demo_methods (Prefix demo_bot) (ID demo_bot) (inbound t False)"
    if "take 1 t = ''!''" for t
    using that by (simp add: demo_defs)
  have s: "stripped demo_methods demo_bot (inbound (CHR ''!'' # t) False) =
      (inbound (CHR ''!'' # t) False)\<lparr>DerivedText := t\<rparr>" for t
    by (simp add: stripped_def demo_defs)
  have m1: "matching_commands demo_methods demo_bot ?ping = [demo_ping, demo_ping_again]"
    by (simp add: matching_commands_def demo_defs)
  have c1: "scheduled_handlers demo_methods demo_bot ?ping =
      [CommandHandle demo_ping (NewConversation ''ping'' ?ping (Some 1)),
       CommandHandle demo_ping_again (NewConversation ''ping'' ?ping (Some 1))]"
    by (simp add: scheduled_handlers_def command_call_def map_filter_simps demo_defs)
  have m2: "matching_commands demo_methods demo_bot ?pang = []"
    by (simp add: matching_commands_def demo_defs)
  have c2: "scheduled_handlers demo_methods demo_bot ?pang = []"
    using m2 by (rule scheduled_handlers_Nil)
  have l2: "searchListener demo_regexp demo_bot ?pang = (Inr False, [])"
    by (simp add: searchListener_valid valid_listeners_def fired_listeners_def listener_pass_def
        regex_matches_def demo_defs)
  have h: "\<not> IsHelpRequest demo_methods ?ping" "\<not> IsHelpRequest demo_methods ?pang"
    "IsHelpRequest demo_methods ?hreq"
    by (simp_all add: demo_defs)
  show ?thesis
    using process_dispatch [OF a, of "''!ping''" demo_regexp]
      process_dispatch [OF a, of "''!pang''" demo_regexp]
      process_dispatch [OF a, of "''!help''" demo_regexp]
    by (simp add: s m1 m2 c1 c2 l2 h a Let_def searchCommand_eq calls_sendHelp_def
        calls_searchCommand_def calls_searchListener_def)
qed

section \<open>The command pass\<close>

text \<open>
  C2: for every registry of commands and every message, with \<open>k\<close> the number of commands
  whose pattern matches the text of the message: \<open>searchCommand\<close> calls \<open>Handle\<close> exactly \<open>k\<close>
  times, once for each matching command, in registration order, each time with the
  conversation built from that command's own match, and it returns true if and only if
  \<open>0 < k\<close>. It does not stop at the first match.
\<close>

theorem searchCommand_all_matches:
  "searchCommand M b msg =
     (0 < length (matching_commands M b msg), scheduled_handlers M b msg) \<and>
   length (scheduled_handlers M b msg) = length (matching_commands M b msg) \<and>
   scheduled_handlers M b msg =
     map (\<lambda>cmd. CommandHandle cmd
            (NewConversation (the (Match (CommandInterface.Get cmd) (Text M msg))) msg (Socket b)))
       (matching_commands M b msg)"
  by (simp add: searchCommand_eq scheduled_handlers_def matching_commands_def
      scheduled_handlers_map)

theorem searchCommand_all_matches_witness:
  "searchCommand demo_methods demo_bot (inbound ''ping'' True) =
     (True,
      [CommandHandle demo_ping (NewConversation ''ping'' (inbound ''ping'' True) (Some 1)),
       CommandHandle demo_ping_again (NewConversation ''ping'' (inbound ''ping'' True) (Some 1))])"
  using searchCommand_all_matches [of demo_methods demo_bot "inbound ''ping'' True"]
  by (simp add: demo_matching)
     (simp add: demo_methods_def demo_bot_def inbound_def demo_ping_def
      demo_ping_again_def NewCommand_def allot_New_def demo_matcher_def)

section \<open>A negotiation that is refused\<close>

text \<open>
  C3, as the code has it: when the negotiation call is answered with status 200 and the
  body, read and decoded, has \<open>ok = false\<close>, \<open>Handshake\<close> and \<open>New\<close> fail with an error whose
  message is exactly the error string of the response, and the websocket is never dialled.
  Without the status the claim fails: \<open>Handshake\<close> tests \<open>res.StatusCode != 200\<close> before it
  reads the body, so the same answer sent with status 201 gives the error
  \<open>Failed with HTTP Code: 201\<close> and not the error string of the service.
\<close>

theorem Handshake_not_ok:
  assumes "Token b = token"
    and "http_Get N (''https://slack.com/api/rtm.start?token='' @ token) = Some res"
    and "StatusCode res = 200"
    and "Body res = Some body"
    and "json_Unmarshal N body = Some response"
    and "\<not> Ok response"
  shows "Handshake N b =
           (Inl (Error response),
            [HTTP_Get (''https://slack.com/api/rtm.start?token='' @ token), Body_Close]) \<and>
         dials (snd (Handshake N b)) = [] \<and>
         fst (New N token :: (string + ('mt, 'h, 'lh) Bot) \<times> net_event list) = Inl (Error response) \<and>
         dials (snd (New N token :: (string + ('mt, 'h, 'lh) Bot) \<times> net_event list)) = []"
  using assms by (simp add: Handshake_def New_def dials_def)

theorem Handshake_not_ok_witness:
  "Handshake invalid_auth_network demo_bot =
     (Inl ''invalid_auth'', [HTTP_Get ''https://slack.com/api/rtm.start?token=xoxb'', Body_Close]) \<and>
   dials (snd (Handshake invalid_auth_network demo_bot)) = []"
proof -
  have "Token demo_bot = ''xoxb''"
    by (simp add: demo_bot_def)
  moreover have "http_Get invalid_auth_network (''https://slack.com/api/rtm.start?token='' @ ''xoxb'') =
      Some \<lparr>StatusCode = 200, Body = Some ''{}''\<rparr>"
    by (simp add: invalid_auth_network_def)
  moreover have "json_Unmarshal invalid_auth_network ''{}'' = Some invalid_auth_response"
    by (simp add: invalid_auth_network_def)
  moreover have "\<not> Ok invalid_auth_response" and "Error invalid_auth_response = ''invalid_auth''"
    by (simp_all add: invalid_auth_response_def)
  ultimately show ?thesis
    using Handshake_not_ok [of demo_bot "''xoxb''" invalid_auth_network
      "\<lparr>StatusCode = 200, Body = Some ''{}''\<rparr>" "''{}''" invalid_auth_response]
    apply simp
    apply blast
    done
qed

theorem Handshake_status_201_counterexample:
  "http_Get status_201_network (''https://slack.com/api/rtm.start?token='' @ Token demo_bot) =
     Some \<lparr>StatusCode = 201, Body = Some ''{}''\<rparr> \<and>
   json_Unmarshal status_201_network ''{}'' = Some invalid_auth_response \<and>
   Ok invalid_auth_response = False \<and>
   Error invalid_auth_response = ''invalid_auth'' \<and>
   fst (Handshake status_201_network demo_bot) = Inl ''Failed with HTTP Code: 201'' \<and>
   fst (Handshake status_201_network demo_bot) \<noteq> Inl (Error invalid_auth_response)"
  by (simp add: Handshake_def status_201_network_def invalid_auth_response_def demo_bot_def
      fmt_d_def nat_digits.simps char_of_def bit_simps)

section \<open>The text the listeners see\<close>

text \<open>
  C4: with the strip methods of the spec, which change the derived text only, and a
  registry whose regexes compile and whose handlers are functions: whenever \<open>process\<close>
  reaches the listener pass, for a message that is not addressed to the bot and for one
  that is addressed to it, was stripped and matched no command, every listener is
  evaluated with \<open>MatchString\<close> on its regex as registered (nothing anchors it) against the
  raw text of the message as received, not the stripped text, and every listener whose
  regex matches is started, in registration order.
\<close>

theorem listeners_match_raw_text:
  assumes "valid_listeners RE b"
  shows "let M' = spec_strips T M; m' = stripped M' b message in
         (\<not> IsBotMessage M' (Prefix b) (ID b) message \<longrightarrow>
            process M' RE b message =
              (Inr (), Call_searchListener message # listener_pass RE b (Message message) message)) \<and>
         (IsBotMessage M' (Prefix b) (ID b) message \<and> \<not> IsHelpRequest M' m' \<and>
          matching_commands M' b m' = [] \<longrightarrow>
            process M' RE b message =
              (Inr (), Call_searchCommand m' # Call_searchListener m' #
                       listener_pass RE b (Message message) m'))"
  using process_listener_pass [OF assms, of "spec_strips T M" message]
    spec_strips_raw_text [of T M b message]
  by (simp add: Let_def)

theorem listeners_match_raw_text_witness:
  "valid_listeners demo_regexp demo_bot \<and>
   process (spec_strips demo_text_ops demo_methods) demo_regexp demo_bot (inbound ''!foo'' False) =
     (Inr (),
      [Call_searchCommand ((inbound ''!foo'' False)\<lparr>DerivedText := ''foo''\<rparr>),
       Call_searchListener ((inbound ''!foo'' False)\<lparr>DerivedText := ''foo''\<rparr>),
       LogPrintf (''Listener Matched: !foo'' @ [CHR 0x0A]),
       Go (Some 7) (NewListenerConversation ((inbound ''!foo'' False)\<lparr>DerivedText := ''foo''\<rparr>) (Some 1))])"
proof -
  let ?M = "spec_strips demo_text_ops demo_methods"
  let ?m = "(inbound ''!foo'' False)\<lparr>DerivedText := ''foo''\<rparr>"
  have v: "valid_listeners demo_regexp demo_bot"
    by (simp add: valid_listeners_def demo_defs)
  have a: "IsBotMessage ?M (Prefix demo_bot) (ID demo_bot) (inbound ''!foo'' False)"
    by (simp add: spec_strips_def demo_defs)
  have s: "stripped ?M demo_bot (inbound ''!foo'' False) = ?m"
    by (simp add: stripped_def spec_strips_def demo_defs)
  have h: "\<not> IsHelpRequest ?M ?m"
    by (simp add: spec_strips_def demo_defs)
  have m: "matching_commands ?M demo_bot ?m = []"
    by (simp add: matching_commands_def spec_strips_def demo_defs)
  have l: "listener_pass demo_regexp demo_bot (Message (inbound ''!foo'' False)) ?m =
      [LogPrintf (''Listener Matched: !foo'' @ [CHR 0x0A]),
       Go (Some 7) (NewListenerConversation ?m (Some 1))]"
    by (simp add: listener_pass_def fired_listeners_def listener_call_def regex_matches_def
        demo_defs)
  show ?thesis
    using listeners_match_raw_text [OF v, of demo_text_ops demo_methods "inbound ''!foo'' False"]
    by (simp add: v a s h m l Let_def)
qed

section \<open>Listen and the end of the connection\<close>

text \<open>
  C5, as the code has it: \<open>Listen\<close> does not return when the connection terminates. For
  every transport, also one whose reads report the end of the connection, and for every
  number of turns of the loop: after that many turns \<open>Listen\<close> has not returned and has
  made one receive in each turn. The claim that \<open>Listen\<close> returns when the connection
  terminates fails on a transport whose every read reports the end of the stream.
\<close>

theorem Listen_never_returns:
  "fst (Listen n R b) = None \<and> receives (snd (Listen n R b)) = n"
  by (simp add: Listen_def Listen_loop_not_returned receives_Listen_loop Listen_init_def)

theorem Listen_end_of_stream_counterexample:
  "fst (closed_transport (Socket demo_bot) 0 Message_zero) = Some ''EOF'' \<and>
   \<not> (\<exists>n. fst (Listen n closed_transport demo_bot) = Some ())"
  by (simp add: closed_transport_def Listen_def Listen_loop_not_returned)

section \<open>Frames that do not decode\<close>

text \<open>
  C6: when the receive of turn \<open>k + 1\<close> of the loop of \<open>Listen\<close> fails, \<open>Listen\<close> has not
  returned after that turn and reports nothing, the turn starts no processing goroutine
  (the trace is as it was after \<open>k\<close> turns; the only things the turn changes are the count
  of receives and the contents of \<open>msg\<close>), and the loop goes on: the turn after it runs
  from that state and makes the next receive.
\<close>

theorem Listen_skips_failed_receive:
  assumes "fst (R (Socket b) k (msg_var (snd (Listen k R b)))) \<noteq> None"
  shows "fst (Listen (Suc k) R b) = None \<and>
         trace (snd (Listen (Suc k) R b)) = trace (snd (Listen k R b)) \<and>
         receives (snd (Listen (Suc k) R b)) = Suc k \<and>
         msg_var (snd (Listen (Suc k) R b)) = snd (R (Socket b) k (msg_var (snd (Listen k R b)))) \<and>
         Listen (Suc (Suc k)) R b = (None, Listen_body R b (snd (Listen (Suc k) R b))) \<and>
         receives (snd (Listen (Suc (Suc k)) R b)) = Suc (Suc k)"
proof (cases "R (Socket b) k (msg_var (snd (Listen k R b)))")
  case (Pair err msg)
  with assms obtain e where "err = Some e"
    by auto
  moreover have "receives (snd (Listen k R b)) = k"
    by (simp add: Listen_def receives_Listen_loop Listen_init_def)
  ultimately have "Listen_body R b (snd (Listen k R b)) =
      (snd (Listen k R b))\<lparr>receives := Suc k, msg_var := msg\<rparr>"
    using Pair by (simp add: Listen_body_def)
  moreover have "Listen (Suc n) R b = (None, Listen_body R b (snd (Listen n R b)))" for n
    unfolding Listen_def by (rule Listen_loop_Suc)
  moreover have "receives (snd (Listen n R b)) = n" for n
    by (simp add: Listen_def receives_Listen_loop Listen_init_def)
  ultimately show ?thesis
    using Pair by (simp add: receives_Listen_body)
qed

theorem Listen_skips_failed_receive_witness:
  "fst (flaky_transport (Socket demo_bot) 0 (msg_var (snd (Listen 0 flaky_transport demo_bot)))) \<noteq> None \<and>
   Listen (Suc 0) flaky_transport demo_bot =
     (None, \<lparr>receives = Suc 0, msg_var = Message_zero, trace = []\<rparr>) \<and>
   Listen (Suc (Suc 0)) flaky_transport demo_bot =
     (None, \<lparr>receives = Suc (Suc 0), msg_var = Message_zero,
             trace = [GoProcess (inbound ''hi'' False)]\<rparr>)"
proof -
  have f: "fst (flaky_transport (Socket demo_bot) 0 (msg_var (snd (Listen 0 flaky_transport demo_bot)))) \<noteq> None"
    by (simp add: flaky_transport_def)
  have e: "Listen (Suc 0) flaky_transport demo_bot =
      (None, \<lparr>receives = Suc 0, msg_var = Message_zero, trace = []\<rparr>)"
    by (simp add: Listen_def Listen_init_def Listen_body_def flaky_transport_def)
  show ?thesis
    using Listen_skips_failed_receive [of flaky_transport demo_bot 0] f e
    by (simp add: Listen_body_def flaky_transport_def)
qed

section \<open>The help reply\<close>

text \<open>
  C7: for every registry of commands and every message, \<open>sendHelp\<close> sends one reply: the
  heading, then one line for each command in registration order, the raw pattern between
  backquotes followed by the separator and the description exactly when the description is
  not empty; the reply starts with a mention of the sender if and only if the message is
  not a direct message.
\<close>

theorem sendHelp_reply:
  "sendHelp M b msg = [JSONSend (Socket b) (SetText M (help_reply M b msg) msg)]"
  by (rule sendHelp_eq)

theorem sendHelp_reply_witness:
  "sendHelp demo_methods demo_bot (inbound ''help'' False) =
     [JSONSend (Some 1)
        ((inbound ''help'' False)\<lparr>DerivedText :=
           ''<@U2>: I can support you with those features:'' @ [CHR 0x0A, CHR 0x0A] @
           ''`ping`'' @ [CHR 0x0A] @
           ''`pong` *'' @ [CHR 0xE2, CHR 0x80, CHR 0x93] @ ''* answers'' @ [CHR 0x0A] @
           ''`ping` *'' @ [CHR 0xE2, CHR 0x80, CHR 0x93] @ ''* again'' @ [CHR 0x0A]\<rparr>)]"
  using sendHelp_reply [of demo_methods demo_bot "inbound ''help'' False"]
  by (simp add: help_reply_def help_mention_def help_heading_def help_line_def
      help_separator_def demo_methods_def demo_bot_def inbound_def demo_ping_def demo_pong_def
      demo_ping_again_def NewCommand_def allot_New_def)

section \<open>A listener whose regex does not compile\<close>

text \<open>
  C8, where the code departs from the claim: when some registered listener's string does
  not compile, \<open>searchListener\<close> does not return a boolean, it ends in a fault. The error
  of \<open>regexp.Compile\<close> is dropped and \<open>MatchString\<close> is called on the nil pointer.
\<close>

theorem searchListener_invalid_regex_faults:
  assumes "lst \<in> set (Listeners b)" and "Compile RE (Get lst) = None"
  shows "\<exists>f. fst (searchListener RE b msg) = Inl f"
proof -
  from assms(1) obtain j where "j < length (Listeners b)" "Listeners b ! j = lst"
    by (auto simp: in_set_conv_nth)
  with assms(2) show ?thesis
    unfolding searchListener_def
    by (intro searchListener_loop_invalid [of 0 j]) simp_all
qed

theorem searchListener_invalid_regex_faults_witness:
  "NewListener ''('' (Some 8) \<in> set (Listeners demo_bad_bot) \<and>
   Compile demo_regexp (Get (NewListener ''('' (Some (8::nat)))) = None \<and>
   (\<exists>f. fst (searchListener demo_regexp demo_bad_bot (inbound ''xx'' False)) = Inl f) \<and>
   searchListener demo_regexp demo_bad_bot (inbound ''xx'' False) = (Inl NilPointerDereference, [])"
proof -
  have i: "NewListener ''('' (Some 8) \<in> set (Listeners demo_bad_bot)"
    by (simp add: demo_bad_bot_def Hear_def)
  have c: "Compile demo_regexp (Get (NewListener ''('' (Some (8::nat)))) = None"
    by (simp add: demo_defs)
  have e: "searchListener demo_regexp demo_bad_bot (inbound ''xx'' False) =
      (Inl NilPointerDereference, [])"
    by (simp add: searchListener_def searchListener_loop.simps demo_bad_bot_def Hear_def demo_defs)
  show ?thesis
    using searchListener_invalid_regex_faults [OF i c] i c e
    by simp
qed

section \<open>Commands registered without a description\<close>

text \<open>
  C9: \<open>Command(pattern, handler)\<close> appends a command whose description is empty, and the help
  reply lists it as its pattern between backquotes and nothing more on its line.
\<close>

theorem Command_empty_description:
  "Commands (Command A p h b) = Commands b @ [NewCommand A p [] h] \<and>
   Description (NewCommand A p [] h) = [] \<and>
   help_line (NewCommand A p [] h) = ''`'' @ p @ ''`'' @ [CHR 0x0A] \<and>
   sendHelp M (Command A p h b) msg =
     [JSONSend (Socket b) (SetText M (help_reply M b msg @ ''`'' @ p @ ''`'' @ [CHR 0x0A]) msg)]"
  by (simp add: sendHelp_eq help_reply_def Command_def NewCommand_def allot_New_def help_line_def)

section \<open>Listener registration round trip\<close>

text \<open>
  C10: for every regex string \<open>r\<close> and every handler, \<open>NewListener(r, h).Get()\<close> is exactly
  \<open>r\<close>, and \<open>Handle\<close> starts exactly the registered handler \<open>h\<close>, once, with the conversation
  it was given, and returns.
\<close>

theorem NewListener_roundtrip:
  "Get (NewListener r f) = r \<and>
   Handle (NewListener r (Some h)) conv = [Go (Some h) conv]"
  by (simp add: NewListener_def Listener_zero_def Set_def SetHandler_def Get_def Handle_def)

end
